theory Spec2Isabelle
  imports Main "HOL-Library.AList" "HOL-Library.Sublist"
begin

section \<open>JavaScript values\<close>

text \<open>
  The handlers and the store work on untyped JavaScript values: request bodies, the parsed
  bodies of upstream responses, and the agent objects kept in the store. A number is an
  integer here (ids, epoch milliseconds; the code only tests numbers for truthiness and
  prints ids), and a \<open>Date\<close> is the instant it holds, in epoch milliseconds. An object is
  the list of its own properties in insertion order.
\<close>

datatype jsval =
    JUndefined
  | JNull
  | JBool bool
  | JNum int
  | JStr string
  | JDate nat
  | JArr "jsval list"
  | JObj "(string \<times> jsval) list"

type_synonym obj = "(string \<times> jsval) list"

text \<open>\<open>!v\<close> is \<open>\<not> truthy v\<close>.\<close>

fun truthy :: "jsval \<Rightarrow> bool" where
  "truthy JUndefined = False"
| "truthy JNull = False"
| "truthy (JBool b) = b"
| "truthy (JNum n) = (n \<noteq> 0)"
| "truthy (JStr s) = (s \<noteq> [])"
| "truthy (JDate t) = True"
| "truthy (JArr xs) = True"
| "truthy (JObj kvs) = True"

text \<open>\<open>a || b\<close>\<close>

definition js_or :: "jsval \<Rightarrow> jsval \<Rightarrow> jsval" where
  "js_or a b = (if truthy a then a else b)"

text \<open>Reading a property of \<open>null\<close> or \<open>undefined\<close> throws a TypeError.\<close>

fun nullish :: "jsval \<Rightarrow> bool" where
  "nullish JUndefined = True"
| "nullish JNull = True"
| "nullish v = False"

text \<open>\<open>o.k\<close> on an object given by its property list.\<close>

definition oget :: "obj \<Rightarrow> string \<Rightarrow> jsval" where
  "oget ob k = (case map_of ob k of None \<Rightarrow> JUndefined | Some v \<Rightarrow> v)"

text \<open>
  \<open>v.k\<close> on a value that is not nullish. None of the property names the code reads
  (\<open>data\<close>, \<open>accessToken\<close>, \<open>success\<close>, \<open>id\<close>, ...) is inherited from a prototype, so
  the read is \<open>undefined\<close> on everything that is not an object with that own property.
\<close>

fun getProp :: "jsval \<Rightarrow> string \<Rightarrow> jsval" where
  "getProp (JObj kvs) k = oget kvs k"
| "getProp v k = JUndefined"

text \<open>\<open>v?.k\<close>\<close>

definition getPropOpt :: "jsval \<Rightarrow> string \<Rightarrow> jsval" where
  "getPropOpt v k = (if nullish v then JUndefined else getProp v k)"

text \<open>\<open>{...a, ...b}\<close>: the properties of \<open>b\<close> written over those of \<open>a\<close>, in order.\<close>

definition spread :: "obj \<Rightarrow> obj \<Rightarrow> obj" where
  "spread a b = foldl (\<lambda>acc (k, v). AList.update k v acc) a b"

subsection \<open>Printing numbers\<close>

text \<open>The decimal digits of a non-negative integer, as \<open>String(n)\<close> prints them.\<close>

definition digit :: "nat \<Rightarrow> char" where
  "digit d = ''0123456789'' ! d"

fun string_of_nat :: "nat \<Rightarrow> string" where
  "string_of_nat n =
     (if n < 10 then [digit n]
      else string_of_nat (n div 10) @ [digit (n mod 10)])"

declare string_of_nat.simps [simp del]

definition string_of_int :: "int \<Rightarrow> string" where
  "string_of_int i = (if i < 0 then CHR ''-'' # string_of_nat (nat (- i)) else string_of_nat (nat i))"

text \<open>
  \<open>v.toString()\<close> on a value of a parsed JSON body; \<open>None\<close> is the TypeError of a call on
  \<open>null\<close> or \<open>undefined\<close>, or on an object whose own \<open>toString\<close> property hides the
  inherited method (no JSON value is callable). Array elements that are \<open>null\<close> print as
  the empty string. A parsed JSON body holds no \<open>Date\<close>, and a \<open>Date\<close> is given no string
  here.
\<close>

fun toString_js :: "jsval \<Rightarrow> string option" and join_js :: "jsval list \<Rightarrow> string option" where
  "toString_js JUndefined = None"
| "toString_js JNull = None"
| "toString_js (JBool b) = Some (if b then ''true'' else ''false'')"
| "toString_js (JNum n) = Some (string_of_int n)"
| "toString_js (JStr s) = Some s"
| "toString_js (JDate t) = None"
| "toString_js (JArr xs) = join_js xs"
| "toString_js (JObj kvs) =
     (if map_of kvs ''toString'' = None then Some ''[object Object]'' else None)"
| "join_js [] = Some []"
| "join_js (x # xs) =
     (case (if nullish x then Some [] else toString_js x) of
        None \<Rightarrow> None
      | Some s \<Rightarrow>
          (if xs = [] then Some s
           else (case join_js xs of None \<Rightarrow> None | Some r \<Rightarrow> Some (s @ '','' @ r))))"

section \<open>The in-memory store (server/storage.ts)\<close>

text \<open>
  Users and sessions are built by the handlers field by field and are records here, the
  stored record extending the inserted one as the spread \<open>{...insertUser, id}\<close> does. An
  agent is kept as the object it is at run time: the seeded records carry \<open>prompt\<close>,
  \<open>first_message\<close> and \<open>created_by\<close>, the routes write \<open>name\<close>, \<open>firstMessage\<close> and
  \<open>createdBy\<close>, and \<open>updateAgent\<close> merges whatever properties it is given. Every method
  of the class takes the store and, when it writes, returns the new one.
\<close>

record insert_user =
  username :: string
  password :: string

record user = insert_user +
  id_user :: int

record insert_session =
  userId :: int
  accessToken :: jsval
  refreshToken :: jsval
  expiresAt :: nat

record session = insert_session +
  id_session :: int
  createdAt :: nat

text \<open>
  A \<open>Map\<close> keeps its entries in insertion order; \<open>set\<close> on a key that is present
  replaces the entry where it stands (\<open>AList.update\<close>), \<open>delete\<close> removes it
  (\<open>AList.delete\<close>), \<open>get\<close> is \<open>map_of\<close> and \<open>values()\<close> is \<open>map snd\<close>.
  The counters are JavaScript numbers; they are integers here, far below \<open>2^53\<close>.
\<close>

record MemStorage =
  users :: "(int \<times> user) list"
  sessions :: "(int \<times> session) list"
  agents :: "(int \<times> obj) list"
  currentUserId :: int
  currentSessionId :: int
  currentAgentId :: int

definition demoAgents :: "obj list" where
  "demoAgents =
     [ [(''prompt'', JStr ''Customer Support Agent''),
        (''description'', JStr ''Handles customer inquiries and support tickets''),
        (''first_message'', JStr ''Hello! I'm here to help you with any questions or issues you may have.''),
        (''created_by'', JStr ''admin'')],
       [(''prompt'', JStr ''Sales Assistant''),
        (''description'', JStr ''Helps with product information and sales inquiries''),
        (''first_message'', JStr ''Hi there! I can help you find the perfect product for your needs.''),
        (''created_by'', JStr ''admin'')],
       [(''prompt'', JStr ''Technical Support''),
        (''description'', JStr ''Provides technical assistance and troubleshooting''),
        (''first_message'', JStr ''Welcome! I'm here to help resolve any technical issues you're experiencing.''),
        (''created_by'', JStr ''admin'')] ]"

text \<open>
  One round of the \<open>forEach\<close> of \<open>seedDemoAgents\<close>; \<open>now\<close> is the instant \<open>new Date()\<close>
  reads in that round.
\<close>

definition seedAgent :: "MemStorage \<Rightarrow> nat \<times> obj \<Rightarrow> MemStorage" where
  "seedAgent st p =
     (case p of (now, agentData) \<Rightarrow>
        let id = currentAgentId st;
            agent = AList.update ''created_at'' (JDate now)
                      (AList.update ''externalId'' JNull
                        (AList.update ''id'' (JNum id) agentData))
        in st\<lparr>currentAgentId := id + 1, agents := AList.update id agent (agents st)\<rparr>)"

text \<open>\<open>clock k\<close> is what the \<open>k\<close>-th reading of the system clock within a call returns.\<close>

definition seedDemoAgents :: "(nat \<Rightarrow> nat) \<Rightarrow> MemStorage \<Rightarrow> MemStorage" where
  "seedDemoAgents clock st =
     foldl seedAgent st (zip (map clock [0 ..< length demoAgents]) demoAgents)"

definition new_MemStorage :: "(nat \<Rightarrow> nat) \<Rightarrow> MemStorage" where
  "new_MemStorage clock =
     seedDemoAgents clock
       \<lparr>users = [], sessions = [], agents = [],
        currentUserId = 1, currentSessionId = 1, currentAgentId = 1\<rparr>"

definition getUser :: "MemStorage \<Rightarrow> int \<Rightarrow> user option" where
  "getUser st i = map_of (users st) i"

definition getUserByUsername :: "MemStorage \<Rightarrow> string \<Rightarrow> user option" where
  "getUserByUsername st name = find (\<lambda>u. username u = name) (map snd (users st))"

definition createUser :: "insert_user \<Rightarrow> MemStorage \<Rightarrow> user \<times> MemStorage" where
  "createUser insertUser st =
     (let id = currentUserId st;
          u = \<lparr>username = username insertUser, password = password insertUser, id_user = id\<rparr>
      in (u, st\<lparr>currentUserId := id + 1, users := AList.update id u (users st)\<rparr>))"

definition createSession :: "insert_session \<Rightarrow> nat \<Rightarrow> MemStorage \<Rightarrow> session \<times> MemStorage" where
  "createSession insertSession now st =
     (let id = currentSessionId st;
          s = \<lparr>userId = userId insertSession,
               accessToken = accessToken insertSession,
               refreshToken = js_or (refreshToken insertSession) JNull,
               expiresAt = expiresAt insertSession,
               id_session = id,
               createdAt = now\<rparr>
      in (s, st\<lparr>currentSessionId := id + 1,
                sessions := AList.update (userId insertSession) s (sessions st)\<rparr>))"

definition getSession :: "MemStorage \<Rightarrow> int \<Rightarrow> session option" where
  "getSession st u = map_of (sessions st) u"

definition deleteSession :: "int \<Rightarrow> MemStorage \<Rightarrow> MemStorage" where
  "deleteSession u st = st\<lparr>sessions := AList.delete u (sessions st)\<rparr>"

definition getAgents :: "MemStorage \<Rightarrow> obj list" where
  "getAgents st = map snd (agents st)"

definition getAgent :: "MemStorage \<Rightarrow> int \<Rightarrow> obj option" where
  "getAgent st i = map_of (agents st) i"

definition createAgent :: "obj \<Rightarrow> nat \<Rightarrow> MemStorage \<Rightarrow> obj \<times> MemStorage" where
  "createAgent insertAgent now st =
     (let id = currentAgentId st;
          agent = AList.update ''created_at'' (JDate now)
                    (AList.update ''externalId'' (js_or (oget insertAgent ''externalId'') JNull)
                      (AList.update ''id'' (JNum id) insertAgent))
      in (agent, st\<lparr>currentAgentId := id + 1, agents := AList.update id agent (agents st)\<rparr>))"

definition updateAgent :: "int \<Rightarrow> obj \<Rightarrow> MemStorage \<Rightarrow> obj option \<times> MemStorage" where
  "updateAgent i updateData st =
     (case map_of (agents st) i of
        None \<Rightarrow> (None, st)
      | Some existingAgent \<Rightarrow>
          (let updatedAgent = spread existingAgent updateData
           in (Some updatedAgent, st\<lparr>agents := AList.update i updatedAgent (agents st)\<rparr>)))"

definition deleteAgent :: "int \<Rightarrow> MemStorage \<Rightarrow> MemStorage" where
  "deleteAgent i st = st\<lparr>agents := AList.delete i (agents st)\<rparr>"

subsection \<open>Sequences of store operations\<close>

datatype store_op =
    CreateUser insert_user
  | CreateSession insert_session nat
  | DeleteSession int
  | CreateAgent obj nat
  | UpdateAgent int obj
  | DeleteAgent int

fun apply_op :: "MemStorage \<Rightarrow> store_op \<Rightarrow> MemStorage" where
  "apply_op st (CreateUser u) = snd (createUser u st)"
| "apply_op st (CreateSession s now) = snd (createSession s now st)"
| "apply_op st (DeleteSession u) = deleteSession u st"
| "apply_op st (CreateAgent a now) = snd (createAgent a now st)"
| "apply_op st (UpdateAgent i a) = snd (updateAgent i a st)"
| "apply_op st (DeleteAgent i) = deleteAgent i st"

definition run_ops :: "MemStorage \<Rightarrow> store_op list \<Rightarrow> MemStorage" where
  "run_ops st ops = foldl apply_op st ops"

text \<open>Agent keys ascend and stay below the counter; every session is filed under its user.\<close>

definition agents_inv :: "MemStorage \<Rightarrow> bool" where
  "agents_inv st =
     (sorted_wrt (<) (map fst (agents st)) \<and>
      list_all (\<lambda>k. k < currentAgentId st) (map fst (agents st)))"

definition sessions_inv :: "MemStorage \<Rightarrow> bool" where
  "sessions_inv st =
     (distinct (map fst (sessions st)) \<and>
      list_all (\<lambda>p. userId (snd p) = fst p) (sessions st))"

text \<open>The stored sessions of one user.\<close>

definition sessionsOf :: "MemStorage \<Rightarrow> int \<Rightarrow> session list" where
  "sessionsOf st u = filter (\<lambda>s. userId s = u) (map snd (sessions st))"

section \<open>Requests, responses and the upstream API\<close>

record env =
  CLIENT_ID :: "string option"
  CLIENT_SECRET :: "string option"
  NODE_ENV :: "string option"

text \<open>\<open>process.env.X || "default"\<close>: an unset or empty variable gives the default.\<close>

definition env_or :: "string option \<Rightarrow> string \<Rightarrow> string" where
  "env_or v d = (case v of None \<Rightarrow> d | Some s \<Rightarrow> if s = [] then d else s)"

text \<open>
  One \<open>fetch\<close> call: the address, the method, the \<open>Authorization\<close> and \<open>Content-Type\<close>
  headers and the record handed to \<open>URLSearchParams\<close>.
\<close>

record outbound =
  url :: string
  http_method :: string
  authorization :: "string option"
  content_type :: "string option"
  form :: "(string \<times> jsval) list"

text \<open>
  What \<open>fetch\<close> gives back: a rejected promise, or a response with its status, its status
  text and its body as \<open>JSON.parse\<close> reads it (\<open>None\<close> when the body is not JSON).
\<close>

datatype fetch_result = NetworkError | Response nat string "jsval option"

definition ok :: "nat \<Rightarrow> bool" where
  "ok code = (200 \<le> code \<and> code \<le> 299)"

record cookie =
  cookie_name :: string
  cookie_value :: jsval
  httpOnly :: bool
  secure :: bool
  sameSite :: string
  maxAge :: nat

text \<open>
  A response body is the value handed to \<open>res.json\<close>; the body of a validation failure
  (\<open>{message: "Validation error", errors: error.errors}\<close>) is kept abstract.
\<close>

datatype body = Json jsval | ValidationError

record response =
  status :: nat
  body :: body
  cookies :: "cookie list"

text \<open>What a handler leaves behind: the response, the store, and the upstream calls it made.\<close>

record outcome =
  resp :: response
  store :: MemStorage
  calls :: "outbound list"

definition reply :: "nat \<Rightarrow> jsval \<Rightarrow> response" where
  "reply code v = \<lparr>status = code, body = Json v, cookies = []\<rparr>"

definition message :: "jsval \<Rightarrow> jsval" where
  "message m = JObj [(''message'', m)]"

definition finish :: "response \<Rightarrow> MemStorage \<Rightarrow> outbound list \<Rightarrow> outcome" where
  "finish r st cs = \<lparr>resp = r, store = st, calls = cs\<rparr>"

text \<open>
  \<open>req.cookies?.auth_token\<close> is the cookie's text when the request carries the cookie;
  \<open>!token\<close> holds when it is absent or empty.
\<close>

definition no_token :: "string option \<Rightarrow> bool" where
  "no_token token = (case token of None \<Rightarrow> True | Some t \<Rightarrow> t = [])"

subsection \<open>The request schemas (shared/schema.ts)\<close>

text \<open>
  The schemas are those of the schema file of the repository (unnamed/part_000): \<open>loginSchema\<close>, and
  \<open>insertAgentSchema\<close> over the text columns \<open>name\<close>, \<open>description\<close>, \<open>firstMessage\<close> and
  \<open>createdBy\<close> of the \<open>agents\<close> table.
\<close>

fun is_string :: "jsval \<Rightarrow> bool" where
  "is_string (JStr s) = True"
| "is_string v = False"

fun is_nonempty_string :: "jsval \<Rightarrow> bool" where
  "is_nonempty_string (JStr s) = (1 \<le> length s)"
| "is_nonempty_string v = False"

fun the_string :: "jsval \<Rightarrow> string" where
  "the_string (JStr s) = s"
| "the_string v = []"

text \<open>
  \<open>loginSchema.parse\<close>: an object whose \<open>username\<close> and \<open>password\<close> are strings of length
  at least one; \<open>None\<close> is the \<open>ZodError\<close>.
\<close>

definition loginSchema_parse :: "jsval \<Rightarrow> (string \<times> string) option" where
  "loginSchema_parse b =
     (case b of
        JObj kvs \<Rightarrow>
          (if is_nonempty_string (oget kvs ''username'') \<and> is_nonempty_string (oget kvs ''password'')
           then Some (the_string (oget kvs ''username''), the_string (oget kvs ''password''))
           else None)
      | _ \<Rightarrow> None)"

definition insertAgentFields :: "string list" where
  "insertAgentFields = [''name'', ''description'', ''firstMessage'', ''createdBy'']"

text \<open>
  \<open>insertAgentSchema.parse\<close>: the four text columns are required strings, other keys are
  dropped. \<open>insertAgentSchema.partial().parse\<close>: each of the four is a string or missing.
\<close>

definition insertAgentSchema_parse :: "jsval \<Rightarrow> obj option" where
  "insertAgentSchema_parse b =
     (case b of
        JObj kvs \<Rightarrow>
          (if list_all (\<lambda>k. is_string (oget kvs k)) insertAgentFields
           then Some (map (\<lambda>k. (k, oget kvs k)) insertAgentFields)
           else None)
      | _ \<Rightarrow> None)"

definition insertAgentSchema_partial_parse :: "jsval \<Rightarrow> obj option" where
  "insertAgentSchema_partial_parse b =
     (case b of
        JObj kvs \<Rightarrow>
          (if list_all (\<lambda>k. oget kvs k = JUndefined \<or> is_string (oget kvs k)) insertAgentFields
           then Some (map (\<lambda>k. (k, oget kvs k))
                        (filter (\<lambda>k. oget kvs k \<noteq> JUndefined) insertAgentFields))
           else None)
      | _ \<Rightarrow> None)"

section \<open>The login handlers\<close>

text \<open>
  The repository holds the route handlers in several drafts. server/routes.ts starts with
  the complete one (login, session check, and the agent routes forwarded upstream) and
  ends with an older module that only logs in; unnamed/part_003 is a draft with a demo
  login and a local fallback for agents. Each handler below names the draft it is taken
  from. Writes to the console are left out; everything else a handler does is in its
  outcome.
\<close>

definition tokenRequest :: "env \<Rightarrow> string \<Rightarrow> string \<Rightarrow> outbound" where
  "tokenRequest e name pw =
     \<lparr>url = ''https://ai.metqm.com/api/adminportal/get_accesstoken.cfm'',
      http_method = ''POST'',
      authorization = None,
      content_type = Some ''application/x-www-form-urlencoded'',
      form = [(''grant_type'', JStr ''password''),
              (''username'', JStr name),
              (''password'', JStr pw),
              (''client_id'', JStr (env_or (CLIENT_ID e) ''mywebclient'')),
              (''client_secret'', JStr (env_or (CLIENT_SECRET e) ''mysecretclientpassword'')),
              (''scope'', JStr ''openid profile email'')]\<rparr>"

text \<open>"Create or get user".\<close>

definition findOrCreateUser :: "string \<Rightarrow> string \<Rightarrow> MemStorage \<Rightarrow> user \<times> MemStorage" where
  "findOrCreateUser name pw st =
     (case getUserByUsername st name of
        Some u \<Rightarrow> (u, st)
      | None \<Rightarrow> createUser \<lparr>username = name, password = pw\<rparr> st)"

definition authCookie :: "env \<Rightarrow> jsval \<Rightarrow> cookie" where
  "authCookie e v =
     \<lparr>cookie_name = ''auth_token'', cookie_value = v, httpOnly = True,
      secure = (NODE_ENV e = Some ''production''), sameSite = ''strict'',
      maxAge = 24 * 60 * 60 * 1000\<rparr>"

definition loginOk :: "user \<Rightarrow> jsval" where
  "loginOk u =
     JObj [(''success'', JBool True),
           (''message'', JStr ''Login successful''),
           (''user'', JObj [(''id'', JNum (id_user u)), (''username'', JStr (username u))])]"

text \<open>\<open>expiresAt.setHours(expiresAt.getHours() + 24)\<close>, in a time zone without clock changes.\<close>

definition plus24h :: "nat \<Rightarrow> nat" where
  "plus24h t = t + 24 * 60 * 60 * 1000"

text \<open>
  The tail both generic login paths share once a token is at hand: the account, the
  session, the cookie, the answer. The clock is read for \<open>expiresAt\<close> and then by
  \<open>createSession\<close>.
\<close>

definition startSession ::
  "env \<Rightarrow> (nat \<Rightarrow> nat) \<Rightarrow> string \<Rightarrow> string \<Rightarrow> jsval \<Rightarrow> jsval \<Rightarrow> outbound list \<Rightarrow> MemStorage \<Rightarrow> outcome" where
  "startSession e clock name pw token refresh cs st =
     (case findOrCreateUser name pw st of (u, st1) \<Rightarrow>
        (case createSession
                \<lparr>userId = id_user u, accessToken = token,
                 refreshToken = js_or refresh JNull, expiresAt = plus24h (clock 0)\<rparr>
                (clock 1) st1 of (s, st2) \<Rightarrow>
           finish \<lparr>status = 200, body = Json (loginOk u), cookies = [authCookie e token]\<rparr> st2 cs))"

text \<open>
  \<open>POST /api/auth/login\<close> of server/routes.ts. A thrown error that is not a \<open>ZodError\<close>
  (the rejected \<open>fetch\<close>, the TypeError of \<open>authData.data\<close> on \<open>null\<close>) ends in the 500 of
  the \<open>catch\<close> block.
\<close>

definition loginError :: response where
  "loginError = reply 500 (message (JStr ''Internal server error. Please try again later.''))"

definition routes_login ::
  "env \<Rightarrow> (nat \<Rightarrow> nat) \<Rightarrow> (outbound \<Rightarrow> fetch_result) \<Rightarrow> jsval \<Rightarrow> MemStorage \<Rightarrow> outcome" where
  "routes_login e clock upstream reqBody st =
     (case loginSchema_parse reqBody of
        None \<Rightarrow> finish \<lparr>status = 400, body = ValidationError, cookies = []\<rparr> st []
      | Some (name, pw) \<Rightarrow>
          (let call = tokenRequest e name pw in
           case upstream call of
             NetworkError \<Rightarrow> finish loginError st [call]
           | Response code text parsed \<Rightarrow>
               if \<not> ok code then
                 finish (reply 401 (message (JStr ''Authentication failed. Please check your credentials.''))) st [call]
               else
                 (case parsed of
                    None \<Rightarrow>
                      finish (reply 401 (message (JStr ''Authentication server returned invalid response format.''))) st [call]
                  | Some authData \<Rightarrow>
                      if nullish authData then finish loginError st [call]
                      else
                        (let token = js_or (getPropOpt (getProp authData ''data'') ''accessToken'')
                                           (getProp authData ''access_token'');
                             refresh = js_or (getPropOpt (getProp authData ''data'') ''refreshToken'')
                                             (getProp authData ''refresh_token'')
                         in if \<not> truthy token then
                              finish (reply 401 (message (JStr ''Authentication failed. No access token received.''))) st [call]
                            else startSession e clock name pw token refresh [call] st))))"

text \<open>
  \<open>POST /api/auth/login\<close> of the draft with the demo branch (unnamed/part_003). In the
  demo branch the clock is read four times: for \<open>expiresAt\<close>, by \<open>Date.now()\<close> for the
  session's token, by \<open>createSession\<close>, and by \<open>Date.now()\<close> again for the cookie.
\<close>

definition demo_login ::
  "env \<Rightarrow> (nat \<Rightarrow> nat) \<Rightarrow> (outbound \<Rightarrow> fetch_result) \<Rightarrow> jsval \<Rightarrow> MemStorage \<Rightarrow> outcome" where
  "demo_login e clock upstream reqBody st =
     (case loginSchema_parse reqBody of
        None \<Rightarrow> finish \<lparr>status = 400, body = ValidationError, cookies = []\<rparr> st []
      | Some (name, pw) \<Rightarrow>
          if name = ''testuser'' \<and> pw = ''password123'' then
            (case findOrCreateUser name pw st of (u, st1) \<Rightarrow>
               (case createSession
                       \<lparr>userId = id_user u,
                        accessToken = JStr (''demo_token_'' @ string_of_nat (clock 1)),
                        refreshToken = JNull, expiresAt = plus24h (clock 0)\<rparr>
                       (clock 2) st1 of (s, st2) \<Rightarrow>
                  finish \<lparr>status = 200, body = Json (loginOk u),
                          cookies = [authCookie e (JStr (''demo_token_'' @ string_of_nat (clock 3)))]\<rparr>
                    st2 []))
          else
            (let call = tokenRequest e name pw in
             case upstream call of
               NetworkError \<Rightarrow> finish loginError st [call]
             | Response code text parsed \<Rightarrow>
                 if \<not> ok code then
                   finish (reply 401 (message (JStr ''Authentication failed. Please check your credentials.''))) st [call]
                 else
                   (case parsed of
                      None \<Rightarrow>
                        finish (reply 401 (message (JStr ''Authentication server returned invalid response format. Try demo credentials: testuser/password123''))) st [call]
                    | Some authData \<Rightarrow>
                        if nullish authData then finish loginError st [call]
                        else if \<not> truthy (getProp authData ''access_token'') then
                          finish (reply 401 (message (JStr ''Authentication failed. Invalid response from server.''))) st [call]
                        else startSession e clock name pw (getProp authData ''access_token'')
                               (getProp authData ''refresh_token'') [call] st)))"

text \<open>
  \<open>POST /api/auth/login\<close> of the older module at the end of server/routes.ts (lines
  386-508): other defaults for the client, the body read by \<open>response.json()\<close> (a body that
  is not JSON throws), and \<open>access_token\<close> as the only place of the token.
\<close>

definition tokenRequest_old :: "env \<Rightarrow> string \<Rightarrow> string \<Rightarrow> outbound" where
  "tokenRequest_old e name pw =
     \<lparr>url = ''https://ai.metqm.com/api/adminportal/get_agentlist_r1.cfm'',
      http_method = ''POST'',
      authorization = None,
      content_type = Some ''application/x-www-form-urlencoded'',
      form = [(''grant_type'', JStr ''password''),
              (''username'', JStr name),
              (''password'', JStr pw),
              (''client_id'', JStr (env_or (CLIENT_ID e) ''default_client_id'')),
              (''client_secret'', JStr (env_or (CLIENT_SECRET e) ''default_client_secret'')),
              (''scope'', JStr ''openid profile email'')]\<rparr>"

definition old_login ::
  "env \<Rightarrow> (nat \<Rightarrow> nat) \<Rightarrow> (outbound \<Rightarrow> fetch_result) \<Rightarrow> jsval \<Rightarrow> MemStorage \<Rightarrow> outcome" where
  "old_login e clock upstream reqBody st =
     (case loginSchema_parse reqBody of
        None \<Rightarrow> finish \<lparr>status = 400, body = ValidationError, cookies = []\<rparr> st []
      | Some (name, pw) \<Rightarrow>
          (let call = tokenRequest_old e name pw in
           case upstream call of
             NetworkError \<Rightarrow> finish loginError st [call]
           | Response code text parsed \<Rightarrow>
               if \<not> ok code then
                 finish (reply 401 (message (JStr ''Authentication failed. Please check your credentials.''))) st [call]
               else
                 (case parsed of
                    None \<Rightarrow> finish loginError st [call]
                  | Some authData \<Rightarrow>
                      if nullish authData then finish loginError st [call]
                      else if \<not> truthy (getProp authData ''access_token'') then
                        finish (reply 401 (message (JStr ''Authentication failed. Invalid response from server.''))) st [call]
                      else startSession e clock name pw (getProp authData ''access_token'')
                             (getProp authData ''refresh_token'') [call] st)))"

text \<open>\<open>GET /api/auth/me\<close>, the same in every draft. The store is in scope and never read.\<close>

definition routes_me :: "string option \<Rightarrow> MemStorage \<Rightarrow> outcome" where
  "routes_me token st =
     (if no_token token then finish (reply 401 (message (JStr ''Not authenticated''))) st []
      else finish (reply 200 (JObj [(''authenticated'', JBool True)])) st [])"

section \<open>The agent handlers\<close>

definition notAuthenticated :: response where
  "notAuthenticated = reply 401 (message (JStr ''Not authenticated''))"

definition tokenText :: "string option \<Rightarrow> string" where
  "tokenText token = (case token of None \<Rightarrow> [] | Some t \<Rightarrow> t)"

text \<open>The header \<open>`Bearer ${token}`\<close>.\<close>

definition bearer :: "string option \<Rightarrow> string option" where
  "bearer token = Some (''Bearer '' @ tokenText token)"

definition listRequest :: "string option \<Rightarrow> outbound" where
  "listRequest token =
     \<lparr>url = ''https://ai.metqm.com/api/adminportal/get_agentlist_r1.cfm'',
      http_method = ''GET'',
      authorization = bearer token,
      content_type = None,
      form = []\<rparr>"

text \<open>
  \<open>GET /api/agents\<close> of server/routes.ts: an upstream status that is not 2xx is handed
  on, and whatever is thrown inside the inner \<open>try\<close> (the rejected \<open>fetch\<close>, a body that
  is not JSON) ends in its 500.
\<close>

definition routes_getAgents ::
  "(outbound \<Rightarrow> fetch_result) \<Rightarrow> string option \<Rightarrow> MemStorage \<Rightarrow> outcome" where
  "routes_getAgents upstream token st =
     (if no_token token then finish notAuthenticated st []
      else
        (let call = listRequest token in
         case upstream call of
           NetworkError \<Rightarrow>
             finish (reply 500 (message (JStr ''Error connecting to agent API''))) st [call]
         | Response code text parsed \<Rightarrow>
             if \<not> ok code then
               finish (reply code (message (JStr ''Failed to fetch agents from API''))) st [call]
             else
               (case parsed of
                  None \<Rightarrow> finish (reply 500 (message (JStr ''Error connecting to agent API''))) st [call]
                | Some payload \<Rightarrow> finish (reply 200 payload) st [call])))"

text \<open>The local list as \<open>res.json(agents)\<close> sends it.\<close>

definition localAgents :: "MemStorage \<Rightarrow> jsval" where
  "localAgents st = JArr (map JObj (getAgents st))"

text \<open>
  \<open>GET /api/agents\<close> of the draft with the fallback (unnamed/part_003): a demo token is
  served from the store, and so is every failure of the upstream call.
\<close>

definition demo_getAgents ::
  "(outbound \<Rightarrow> fetch_result) \<Rightarrow> string option \<Rightarrow> MemStorage \<Rightarrow> outcome" where
  "demo_getAgents upstream token st =
     (if no_token token then finish notAuthenticated st []
      else if prefix ''demo_token_'' (tokenText token) then
        finish (reply 200 (localAgents st)) st []
      else
        (let call = listRequest token in
         case upstream call of
           NetworkError \<Rightarrow> finish (reply 200 (localAgents st)) st [call]
         | Response code text parsed \<Rightarrow>
             if \<not> ok code then finish (reply 200 (localAgents st)) st [call]
             else
               (case parsed of
                  None \<Rightarrow> finish (reply 200 (localAgents st)) st [call]
                | Some payload \<Rightarrow> finish (reply 200 payload) st [call])))"

definition addRequest :: "string option \<Rightarrow> obj \<Rightarrow> outbound" where
  "addRequest token agentData =
     \<lparr>url = ''https://ai.metqm.com/api/adminportal/put_addagent.cfm'',
      http_method = ''POST'',
      authorization = bearer token,
      content_type = Some ''application/x-www-form-urlencoded'',
      form = [(''prompt'', oget agentData ''name''),
              (''first_message'', oget agentData ''firstMessage''),
              (''descp'', oget agentData ''description'')]\<rparr>"

definition createError :: response where
  "createError = reply 500 (message (JStr ''Error creating agent''))"

text \<open>
  \<open>POST /api/agents\<close> of server/routes.ts. The record is stored only after the upstream
  answer reported success; \<open>now\<close> is the instant \<open>createAgent\<close> stamps.
\<close>

definition routes_postAgent ::
  "nat \<Rightarrow> (outbound \<Rightarrow> fetch_result) \<Rightarrow> string option \<Rightarrow> jsval \<Rightarrow> MemStorage \<Rightarrow> outcome" where
  "routes_postAgent now upstream token reqBody st =
     (if no_token token then finish notAuthenticated st []
      else
        (case insertAgentSchema_parse reqBody of
           None \<Rightarrow> finish \<lparr>status = 400, body = ValidationError, cookies = []\<rparr> st []
         | Some agentData \<Rightarrow>
             (let call = addRequest token agentData in
              case upstream call of
                NetworkError \<Rightarrow> finish createError st [call]
              | Response code text parsed \<Rightarrow>
                  if \<not> ok code then
                    finish (reply code (message (JStr ''Failed to create agent via external API''))) st [call]
                  else
                    (case parsed of
                       None \<Rightarrow> finish createError st [call]
                     | Some apiResult \<Rightarrow>
                         if nullish apiResult then finish createError st [call]
                         else if \<not> truthy (getProp apiResult ''success'') then
                           finish (reply 400 (message (js_or (getProp apiResult ''error'')
                                                            (JStr ''Failed to create agent'')))) st [call]
                         else if nullish (getProp apiResult ''data'') then finish createError st [call]
                         else
                           (case toString_js (getProp (getProp apiResult ''data'') ''id'') of
                              None \<Rightarrow> finish createError st [call]
                            | Some externalId \<Rightarrow>
                                (case createAgent
                                        [(''name'', oget agentData ''name''),
                                         (''description'', oget agentData ''description''),
                                         (''firstMessage'', oget agentData ''firstMessage''),
                                         (''createdBy'', oget agentData ''createdBy''),
                                         (''externalId'', JStr externalId)]
                                        now st of (createdAgent, st1) \<Rightarrow>
                                   finish (reply 201 (JObj [(''success'', JBool True),
                                                            (''agent'', JObj createdAgent),
                                                            (''externalData'', getProp apiResult ''data'')]))
                                     st1 [call]))))))"

text \<open>\<open>agentId\<close> is \<open>parseInt(req.params.id)\<close>: an integer, or \<open>None\<close> for \<open>NaN\<close>.\<close>

definition lookupAgent :: "MemStorage \<Rightarrow> int option \<Rightarrow> obj option" where
  "lookupAgent st agentId = (case agentId of None \<Rightarrow> None | Some i \<Rightarrow> getAgent st i)"

definition idString :: "int option \<Rightarrow> string" where
  "idString agentId = (case agentId of None \<Rightarrow> ''NaN'' | Some i \<Rightarrow> string_of_int i)"

definition editRequest :: "string option \<Rightarrow> int option \<Rightarrow> obj \<Rightarrow> obj \<Rightarrow> outbound" where
  "editRequest token agentId updateData existingAgent =
     \<lparr>url = ''https://ai.metqm.com/api/adminportal/put_editagent.cfm'',
      http_method = ''POST'',
      authorization = bearer token,
      content_type = Some ''application/x-www-form-urlencoded'',
      form = [(''id'', js_or (oget existingAgent ''externalId'') (JStr (idString agentId))),
              (''prompt'', js_or (oget updateData ''name'') (oget existingAgent ''name'')),
              (''first_message'', js_or (oget updateData ''firstMessage'') (oget existingAgent ''firstMessage'')),
              (''descp'', js_or (oget updateData ''description'') (oget existingAgent ''description''))]\<rparr>"

definition updateError :: response where
  "updateError = reply 500 (message (JStr ''Error updating agent''))"

definition agentNotFound :: response where
  "agentNotFound = reply 404 (message (JStr ''Agent not found''))"

definition updateAgentAt :: "int option \<Rightarrow> obj \<Rightarrow> MemStorage \<Rightarrow> obj option \<times> MemStorage" where
  "updateAgentAt agentId updateData st =
     (case agentId of None \<Rightarrow> (None, st) | Some i \<Rightarrow> updateAgent i updateData st)"

definition json_of :: "obj option \<Rightarrow> jsval" where
  "json_of a = (case a of None \<Rightarrow> JUndefined | Some ob \<Rightarrow> JObj ob)"

text \<open>\<open>PATCH /api/agents/:id\<close> of server/routes.ts.\<close>

definition routes_patchAgent ::
  "(outbound \<Rightarrow> fetch_result) \<Rightarrow> string option \<Rightarrow> int option \<Rightarrow> jsval \<Rightarrow> MemStorage \<Rightarrow> outcome" where
  "routes_patchAgent upstream token agentId reqBody st =
     (if no_token token then finish notAuthenticated st []
      else
        (case insertAgentSchema_partial_parse reqBody of
           None \<Rightarrow> finish \<lparr>status = 400, body = ValidationError, cookies = []\<rparr> st []
         | Some updateData \<Rightarrow>
             (case lookupAgent st agentId of
                None \<Rightarrow> finish agentNotFound st []
              | Some existingAgent \<Rightarrow>
                  (let call = editRequest token agentId updateData existingAgent in
                   case upstream call of
                     NetworkError \<Rightarrow> finish updateError st [call]
                   | Response code text parsed \<Rightarrow>
                       if \<not> ok code then
                         finish (reply code (message (JStr (''Failed to update agent via external API: ''
                                   @ string_of_nat code @ '' '' @ text)))) st [call]
                       else
                         (case parsed of
                            None \<Rightarrow>
                              finish (reply 500 (message (JStr ''External API returned invalid JSON response''))) st [call]
                          | Some apiResult \<Rightarrow>
                              if nullish apiResult then finish updateError st [call]
                              else if \<not> truthy (getProp apiResult ''success'') then
                                finish (reply 400 (message (js_or (getProp apiResult ''error'')
                                                                 (JStr ''Failed to update agent'')))) st [call]
                              else
                                (case updateAgentAt agentId updateData st of (updatedLocalAgent, st1) \<Rightarrow>
                                   finish (reply 200 (JObj [(''success'', JBool True),
                                                            (''agent'', json_of updatedLocalAgent),
                                                            (''externalData'', getProp apiResult ''data'')]))
                                     st1 [call]))))))"

text \<open>\<open>PUT /api/agents/:id\<close> of the draft without upstream writes (unnamed/part_003).\<close>

definition demo_putAgent :: "string option \<Rightarrow> int option \<Rightarrow> jsval \<Rightarrow> MemStorage \<Rightarrow> outcome" where
  "demo_putAgent token agentId reqBody st =
     (if no_token token then finish notAuthenticated st []
      else
        (case insertAgentSchema_partial_parse reqBody of
           None \<Rightarrow> finish \<lparr>status = 400, body = ValidationError, cookies = []\<rparr> st []
         | Some updateData \<Rightarrow>
             (case updateAgentAt agentId updateData st of
                (None, st1) \<Rightarrow> finish agentNotFound st1 []
              | (Some updatedAgent, st1) \<Rightarrow> finish (reply 200 (JObj updatedAgent)) st1 [])))"

section \<open>Observations on an outcome\<close>

text \<open>The answer is 200 and its body says \<open>success: true\<close>.\<close>

definition succeeded :: "outcome \<Rightarrow> bool" where
  "succeeded out =
     (status (resp out) = 200 \<and>
      (case body (resp out) of Json v \<Rightarrow> getProp v ''success'' = JBool True | ValidationError \<Rightarrow> False))"

text \<open>
  The access and refresh token of the session the store holds, after the request, for the
  account of the given name.
\<close>

definition sessionTokens :: "outcome \<Rightarrow> string \<Rightarrow> (jsval \<times> jsval) option" where
  "sessionTokens out name =
     (case getUserByUsername (store out) name of
        None \<Rightarrow> None
      | Some u \<Rightarrow>
          (case getSession (store out) (id_user u) of
             None \<Rightarrow> None
           | Some s \<Rightarrow> Some (accessToken s, refreshToken s)))"

definition cookieValues :: "outcome \<Rightarrow> (string \<times> jsval) list" where
  "cookieValues out = map (\<lambda>c. (cookie_name c, cookie_value c)) (cookies (resp out))"

section \<open>Example inputs\<close>

text \<open>A clock that advances by one millisecond from one reading to the next.\<close>

definition tick :: "nat \<Rightarrow> nat" where
  "tick k = 1750000000000 + k"

definition env0 :: env where
  "env0 = \<lparr>CLIENT_ID = None, CLIENT_SECRET = None, NODE_ENV = None\<rparr>"

definition demoBody :: jsval where
  "demoBody = JObj [(''username'', JStr ''testuser''), (''password'', JStr ''password123'')]"

definition aliceBody :: jsval where
  "aliceBody = JObj [(''username'', JStr ''alice''), (''password'', JStr ''secret'')]"

definition agentBody :: jsval where
  "agentBody =
     JObj [(''name'', JStr ''Helper''), (''description'', JStr ''Answers questions''),
           (''firstMessage'', JStr ''Hi''), (''createdBy'', JStr ''alice'')]"

definition agentA :: obj where
  "agentA = [(''name'', JStr ''A''), (''description'', JStr ''first''),
             (''firstMessage'', JStr ''Hello from A''), (''createdBy'', JStr ''alice'')]"

definition agentB :: obj where
  "agentB = [(''name'', JStr ''B''), (''description'', JStr ''second''),
             (''firstMessage'', JStr ''Hello from B''), (''createdBy'', JStr ''alice'')]"

text \<open>Upstream behaviours: out of service, unreachable, and three answers with status 200.\<close>

definition upstream_unavailable :: "outbound \<Rightarrow> fetch_result" where
  "upstream_unavailable call = Response 503 ''Service Unavailable'' None"

definition upstream_offline :: "outbound \<Rightarrow> fetch_result" where
  "upstream_offline call = NetworkError"

definition upstream_nested :: "outbound \<Rightarrow> fetch_result" where
  "upstream_nested call =
     Response 200 ''OK''
       (Some (JObj [(''data'', JObj [(''accessToken'', JStr ''abc''), (''refreshToken'', JStr ''def'')])]))"

definition upstream_flat :: "outbound \<Rightarrow> fetch_result" where
  "upstream_flat call =
     Response 200 ''OK'' (Some (JObj [(''access_token'', JStr ''abc''), (''refresh_token'', JStr ''def'')]))"

definition upstream_quota :: "outbound \<Rightarrow> fetch_result" where
  "upstream_quota call =
     Response 200 ''OK'' (Some (JObj [(''success'', JBool False), (''error'', JStr ''quota exceeded'')]))"

section \<open>Facts about the store\<close>

lemmas seed_defs = new_MemStorage_def seedDemoAgents_def seedAgent_def demoAgents_def

lemma new_keys: "map fst (agents (new_MemStorage clock)) = [1, 2, 3]"
  by (simp add: seed_defs upt_rec)

lemma new_counter: "currentAgentId (new_MemStorage clock) = 4"
  by (simp add: seed_defs upt_rec)

lemma new_sessions: "sessions (new_MemStorage clock) = []"
  by (simp add: seed_defs upt_rec)

lemma oget_update: "oget (AList.update k v ob) k' = (if k' = k then v else oget ob k')"
  by (simp add: oget_def update_conv')

lemma createAgent_id:
  "oget (fst (createAgent insertAgent now st)) ''id'' = JNum (currentAgentId st)"
  by (simp add: createAgent_def Let_def oget_update)

lemma update_fresh_append:
  "k \<notin> fst ` set al \<Longrightarrow> AList.update k v al = al @ [(k, v)]"
  by (induction al) auto

lemma list_all_update:
  "list_all P al \<Longrightarrow> P (k, v) \<Longrightarrow> list_all P (AList.update k v al)"
  by (induction al) auto

lemma list_all_delete: "list_all P al \<Longrightarrow> list_all P (AList.delete k al)"
  by (simp add: AList.delete_eq list_all_iff)

subsection \<open>Agent keys ascend\<close>

lemma agents_inv_new: "agents_inv (new_MemStorage clock)"
  by (simp add: agents_inv_def new_keys new_counter)

lemma createAgent_agents:
  assumes "agents_inv st"
  shows "agents (snd (createAgent a now st)) =
         agents st @ [(currentAgentId st, fst (createAgent a now st))]"
proof -
  have "currentAgentId st \<notin> fst ` set (agents st)"
    using assms by (auto simp: agents_inv_def list_all_iff)
  then show ?thesis
    by (simp add: createAgent_def Let_def update_fresh_append)
qed

lemma createAgent_counter:
  "currentAgentId (snd (createAgent a now st)) = currentAgentId st + 1"
  by (simp add: createAgent_def Let_def)

lemma agents_inv_createAgent:
  assumes "agents_inv st"
  shows "agents_inv (snd (createAgent a now st))"
  using assms
  unfolding agents_inv_def createAgent_agents[OF assms] createAgent_counter
  by (auto simp: sorted_wrt_append list_all_iff)

lemma updateAgent_keys: "map fst (agents (snd (updateAgent i u st))) = map fst (agents st)"
  by (auto simp: updateAgent_def Let_def update_keys map_of_eq_None_iff split: option.splits)

lemma updateAgent_counter: "currentAgentId (snd (updateAgent i u st)) = currentAgentId st"
  by (simp add: updateAgent_def Let_def split: option.splits)

lemma deleteAgent_keys: "map fst (agents (deleteAgent i st)) = removeAll i (map fst (agents st))"
  by (simp add: deleteAgent_def delete_keys)

lemma agents_inv_updateAgent: "agents_inv st \<Longrightarrow> agents_inv (snd (updateAgent i u st))"
  by (simp add: agents_inv_def updateAgent_keys updateAgent_counter)

lemma agents_inv_deleteAgent: "agents_inv st \<Longrightarrow> agents_inv (deleteAgent i st)"
  unfolding agents_inv_def deleteAgent_keys
  by (auto simp: deleteAgent_def removeAll_filter_not_eq sorted_wrt_filter list_all_iff)

lemma agents_inv_apply_op:
  assumes "agents_inv st"
  shows "agents_inv (apply_op st x)"
proof (cases x)
  case (CreateAgent a now)
  with assms show ?thesis by (simp add: agents_inv_createAgent)
next
  case (UpdateAgent i u)
  with assms show ?thesis by (simp add: agents_inv_updateAgent)
next
  case (DeleteAgent i)
  with assms show ?thesis by (simp add: agents_inv_deleteAgent)
next
  case (CreateUser u)
  with assms show ?thesis by (simp add: agents_inv_def createUser_def Let_def)
next
  case (CreateSession s now)
  with assms show ?thesis by (simp add: agents_inv_def createSession_def Let_def)
next
  case (DeleteSession u)
  with assms show ?thesis by (simp add: agents_inv_def deleteSession_def)
qed

lemma agents_inv_run_ops: "agents_inv st \<Longrightarrow> agents_inv (run_ops st ops)"
  unfolding run_ops_def
  by (induction ops arbitrary: st) (simp_all add: agents_inv_apply_op)

lemma agents_inv_reachable: "agents_inv (run_ops (new_MemStorage clock) ops)"
  by (rule agents_inv_run_ops) (rule agents_inv_new)

subsection \<open>Sessions are filed by user\<close>

lemma sessions_inv_new: "sessions_inv (new_MemStorage clock)"
  by (simp add: sessions_inv_def new_sessions)

lemma sessions_inv_createSession:
  "sessions_inv st \<Longrightarrow> sessions_inv (snd (createSession s now st))"
  by (simp add: sessions_inv_def createSession_def Let_def distinct_update list_all_update)

lemma sessions_inv_deleteSession: "sessions_inv st \<Longrightarrow> sessions_inv (deleteSession u st)"
  by (simp add: sessions_inv_def deleteSession_def distinct_delete list_all_delete)

lemma sessions_inv_apply_op:
  assumes "sessions_inv st"
  shows "sessions_inv (apply_op st x)"
proof (cases x)
  case (CreateSession s now)
  with assms show ?thesis by (simp add: sessions_inv_createSession)
next
  case (DeleteSession u)
  with assms show ?thesis by (simp add: sessions_inv_deleteSession)
next
  case (CreateUser u)
  with assms show ?thesis by (simp add: sessions_inv_def createUser_def Let_def)
next
  case (CreateAgent a now)
  with assms show ?thesis by (simp add: sessions_inv_def createAgent_def Let_def)
next
  case (UpdateAgent i u)
  with assms show ?thesis
    by (simp add: sessions_inv_def updateAgent_def Let_def split: option.splits)
next
  case (DeleteAgent i)
  with assms show ?thesis by (simp add: sessions_inv_def deleteAgent_def)
qed

lemma sessions_inv_run_ops: "sessions_inv st \<Longrightarrow> sessions_inv (run_ops st ops)"
  unfolding run_ops_def
  by (induction ops arbitrary: st) (simp_all add: sessions_inv_apply_op)

lemma sessions_inv_reachable: "sessions_inv (run_ops (new_MemStorage clock) ops)"
  by (rule sessions_inv_run_ops) (rule sessions_inv_new)

lemma filter_key_le_one:
  "distinct (map fst al) \<Longrightarrow> length (filter (\<lambda>p. fst p = u) al) \<le> 1"
proof (induction al)
  case Nil
  then show ?case by simp
next
  case (Cons p al)
  show ?case
  proof (cases "fst p = u")
    case True
    with Cons.prems have "\<forall>q \<in> set al. fst q \<noteq> u" by (force simp: image_iff)
    then have "filter (\<lambda>p. fst p = u) al = []" by (simp add: filter_empty_conv)
    with True show ?thesis by simp
  next
    case False
    with Cons show ?thesis by simp
  qed
qed

lemma filter_key_map_of:
  "distinct (map fst al) \<Longrightarrow> map_of al u = Some v \<Longrightarrow> filter (\<lambda>p. fst p = u) al = [(u, v)]"
  by (induction al) (auto simp: filter_empty_conv rev_image_eqI split: if_splits)

lemma sessionsOf_keyed:
  "sessions_inv st \<Longrightarrow> sessionsOf st u = map snd (filter (\<lambda>p. fst p = u) (sessions st))"
  unfolding sessionsOf_def sessions_inv_def filter_map o_def
  by (auto simp: list_all_iff intro!: arg_cong[where f="map snd"] filter_cong)

lemma sessionsOf_le_one: "sessions_inv st \<Longrightarrow> length (sessionsOf st u) \<le> 1"
  using filter_key_le_one[of "sessions st" u] by (simp add: sessionsOf_keyed sessions_inv_def)

lemma sessionsOf_createSession:
  assumes "sessions_inv st"
  shows "sessionsOf (snd (createSession s now st)) (userId s) = [fst (createSession s now st)]"
proof -
  let ?st = "snd (createSession s now st)"
  have inv: "sessions_inv ?st" using assms by (rule sessions_inv_createSession)
  have "map_of (sessions ?st) (userId s) = Some (fst (createSession s now st))"
    by (simp add: createSession_def Let_def update_conv')
  with inv show ?thesis
    by (simp add: sessionsOf_keyed sessions_inv_def filter_key_map_of)
qed

section \<open>The claims about the store\<close>

text \<open>
  C10. A new store holds exactly three seeded agent records, with ids 1, 2 and 3 and
  \<open>externalId\<close> \<open>null\<close>; \<open>getAgents\<close> on it returns three records before any \<open>createAgent\<close>,
  and the first \<open>createAgent\<close> returns a record with id 4.
\<close>

theorem new_store_seeded:
  "map (\<lambda>a. oget a ''id'') (getAgents (new_MemStorage clock)) = [JNum 1, JNum 2, JNum 3]
   \<and> map (\<lambda>a. oget a ''externalId'') (getAgents (new_MemStorage clock)) = [JNull, JNull, JNull]
   \<and> map fst (agents (new_MemStorage clock)) = [1, 2, 3]
   \<and> length (getAgents (new_MemStorage clock)) = 3
   \<and> oget (fst (createAgent insertAgent now (new_MemStorage clock))) ''id'' = JNum 4"
proof (intro conjI)
  show "map (\<lambda>a. oget a ''id'') (getAgents (new_MemStorage clock)) = [JNum 1, JNum 2, JNum 3]"
    by (simp add: seed_defs getAgents_def oget_def upt_rec)
  show "map (\<lambda>a. oget a ''externalId'') (getAgents (new_MemStorage clock)) = [JNull, JNull, JNull]"
    by (simp add: seed_defs getAgents_def oget_def upt_rec)
  show "map fst (agents (new_MemStorage clock)) = [1, 2, 3]"
    by (rule new_keys)
  show "length (getAgents (new_MemStorage clock)) = 3"
    using new_keys[of clock, THEN arg_cong, of length] by (simp add: getAgents_def)
  show "oget (fst (createAgent insertAgent now (new_MemStorage clock))) ''id'' = JNum 4"
    by (simp add: createAgent_id new_counter)
qed

text \<open>
  C7, as the claim states it, fails on a new store: after \<open>createAgent(A)\<close>,
  \<open>createAgent(B)\<close> and \<open>deleteAgent(A.id)\<close> the list is not \<open>[B]\<close>; it has four elements,
  the three seeded records coming first.
\<close>

theorem list_after_delete_counterexample:
  "(let st0 = new_MemStorage tick;
        ra = createAgent agentA (tick 3) st0;
        rb = createAgent agentB (tick 4) (snd ra);
        st3 = deleteAgent 4 (snd rb)
    in oget (fst ra) ''id'' = JNum 4
       \<and> getAgents st3 \<noteq> [fst rb]
       \<and> length (getAgents st3) = 4)"
proof -
  let ?st0 = "new_MemStorage tick"
  let ?ra = "createAgent agentA (tick 3) ?st0"
  let ?rb = "createAgent agentB (tick 4) (snd ?ra)"
  have inv0: "agents_inv ?st0" by (rule agents_inv_new)
  have inv1: "agents_inv (snd ?ra)" using inv0 by (rule agents_inv_createAgent)
  have k: "map fst (agents (snd ?rb)) = [1, 2, 3, 4, 5]"
    by (simp add: createAgent_agents[OF inv1] createAgent_agents[OF inv0]
        createAgent_counter new_keys new_counter)
  have len: "length (getAgents (deleteAgent 4 (snd ?rb))) = 4"
    using deleteAgent_keys[of 4 "snd ?rb", THEN arg_cong, of length]
    by (simp add: k getAgents_def)
  then have "getAgents (deleteAgent 4 (snd ?rb)) \<noteq> [fst ?rb]" by auto
  with len show ?thesis
    by (simp add: Let_def createAgent_id new_counter)
qed

text \<open>
  C7, amended. On a new store, \<open>createAgent(A)\<close>, \<open>createAgent(B)\<close>, \<open>deleteAgent(A.id)\<close>
  leave the three seeded records (ids 1, 2, 3) followed by the record of \<open>B\<close>: four
  elements, the record of \<open>B\<close> last, with id 5 (\<open>A\<close> had id 4). In every store reached
  from a new one the keys of the agent map ascend strictly, a created record is listed
  last, an update keeps every record's place and a delete only removes: the list is in
  insertion order.
\<close>

theorem list_after_delete:
  "(let st0 = new_MemStorage clock;
        ra = createAgent A tA st0;
        rb = createAgent B tB (snd ra);
        st3 = deleteAgent 4 (snd rb)
    in oget (fst ra) ''id'' = JNum 4
       \<and> oget (fst rb) ''id'' = JNum 5
       \<and> getAgents st3 = getAgents st0 @ [fst rb]
       \<and> map (\<lambda>r. oget r ''id'') (getAgents st3) = [JNum 1, JNum 2, JNum 3, JNum 5]
       \<and> last (getAgents st3) = fst rb
       \<and> length (getAgents st3) = 4)
   \<and> (let st = run_ops (new_MemStorage clock) ops
      in sorted_wrt (<) (map fst (agents st))
         \<and> getAgents (snd (createAgent a now st)) = getAgents st @ [fst (createAgent a now st)]
         \<and> map fst (agents (snd (updateAgent i u st))) = map fst (agents st)
         \<and> map fst (agents (deleteAgent i st)) = removeAll i (map fst (agents st)))"
proof -
  let ?st0 = "new_MemStorage clock"
  let ?ra = "createAgent A tA ?st0"
  let ?rb = "createAgent B tB (snd ?ra)"
  have inv0: "agents_inv ?st0" by (rule agents_inv_new)
  have inv1: "agents_inv (snd ?ra)" using inv0 by (rule agents_inv_createAgent)
  have a2: "agents (snd ?rb) = agents ?st0 @ [(4, fst ?ra), (5, fst ?rb)]"
    by (simp add: createAgent_agents[OF inv1] createAgent_agents[OF inv0]
        createAgent_counter new_counter)
  have "4 \<notin> fst ` set (agents ?st0)"
    using new_keys[of clock, THEN arg_cong, of set] by simp
  then have "AList.delete 4 (agents ?st0) = agents ?st0" by (rule delete_id)
  then have a3: "agents (deleteAgent 4 (snd ?rb)) = agents ?st0 @ [(5, fst ?rb)]"
    by (simp add: deleteAgent_def a2 AList.delete_eq)
  have l0: "length (agents ?st0) = 3"
    using new_keys[of clock, THEN arg_cong, of length] by simp
  have idB: "oget (fst ?rb) ''id'' = JNum 5"
    by (simp add: createAgent_id createAgent_counter new_counter)
  have ids0: "map (\<lambda>r. oget r ''id'') (getAgents ?st0) = [JNum 1, JNum 2, JNum 3]"
    by (simp add: seed_defs getAgents_def oget_def upt_rec)
  have lst: "getAgents (deleteAgent 4 (snd ?rb)) = getAgents ?st0 @ [fst ?rb]"
    by (simp add: getAgents_def a3)
  have ids3: "map (\<lambda>r. oget r ''id'') (getAgents (deleteAgent 4 (snd ?rb)))
              = [JNum 1, JNum 2, JNum 3, JNum 5]"
    unfolding lst by (simp add: ids0 idB)
  have lastB: "last (getAgents (deleteAgent 4 (snd ?rb))) = fst ?rb"
    unfolding lst by simp
  have len: "length (getAgents (deleteAgent 4 (snd ?rb))) = 4"
    unfolding lst by (simp add: getAgents_def l0)
  have idA: "oget (fst ?ra) ''id'' = JNum 4"
    by (simp add: createAgent_id new_counter)
  have first: "oget (fst ?ra) ''id'' = JNum 4
       \<and> oget (fst ?rb) ''id'' = JNum 5
       \<and> getAgents (deleteAgent 4 (snd ?rb)) = getAgents ?st0 @ [fst ?rb]
       \<and> map (\<lambda>r. oget r ''id'') (getAgents (deleteAgent 4 (snd ?rb)))
           = [JNum 1, JNum 2, JNum 3, JNum 5]
       \<and> last (getAgents (deleteAgent 4 (snd ?rb))) = fst ?rb
       \<and> length (getAgents (deleteAgent 4 (snd ?rb))) = 4"
    using idA idB lst ids3 lastB len by blast
  let ?st = "run_ops (new_MemStorage clock) ops"
  have inv: "agents_inv ?st" by (rule agents_inv_reachable)
  have second: "sorted_wrt (<) (map fst (agents ?st))
         \<and> getAgents (snd (createAgent a now ?st)) = getAgents ?st @ [fst (createAgent a now ?st)]
         \<and> map fst (agents (snd (updateAgent i u ?st))) = map fst (agents ?st)
         \<and> map fst (agents (deleteAgent i ?st)) = removeAll i (map fst (agents ?st))"
    using inv
    by (simp add: getAgents_def createAgent_agents[OF inv] updateAgent_keys deleteAgent_keys
        agents_inv_def)
  show ?thesis unfolding Let_def using first second by blast
qed

text \<open>
  C5. Whatever operations ran on a new store, at most one stored session has a given
  \<open>userId\<close>; and after two \<open>createSession\<close> calls in a row for one \<open>userId\<close> exactly one
  session is stored for it, the one the second call returned, with that call's
  \<open>accessToken\<close>.
\<close>

theorem one_session_per_user:
  "length (sessionsOf (run_ops (new_MemStorage clock) ops) u) \<le> 1
   \<and> (let st = run_ops (new_MemStorage clock) ops;
          r1 = createSession \<lparr>userId = u, accessToken = a1, refreshToken = f1, expiresAt = e1\<rparr> t1 st;
          r2 = createSession \<lparr>userId = u, accessToken = a2, refreshToken = f2, expiresAt = e2\<rparr> t2 (snd r1)
      in sessionsOf (snd r2) u = [fst r2]
         \<and> accessToken (fst r2) = a2
         \<and> getSession (snd r2) u = Some (fst r2))"
proof -
  let ?st = "run_ops (new_MemStorage clock) ops"
  let ?i1 = "\<lparr>userId = u, accessToken = a1, refreshToken = f1, expiresAt = e1\<rparr>"
  let ?i2 = "\<lparr>userId = u, accessToken = a2, refreshToken = f2, expiresAt = e2\<rparr>"
  have inv: "sessions_inv ?st" by (rule sessions_inv_reachable)
  then have inv1: "sessions_inv (snd (createSession ?i1 t1 ?st))"
    by (rule sessions_inv_createSession)
  have one: "length (sessionsOf ?st u) \<le> 1" using inv by (rule sessionsOf_le_one)
  have two: "sessionsOf (snd (createSession ?i2 t2 (snd (createSession ?i1 t1 ?st)))) u
             = [fst (createSession ?i2 t2 (snd (createSession ?i1 t1 ?st)))]"
    using sessionsOf_createSession[OF inv1, of ?i2 t2] by simp
  have tok: "accessToken (fst (createSession ?i2 t2 (snd (createSession ?i1 t1 ?st)))) = a2"
    by (simp add: createSession_def Let_def)
  have got: "getSession (snd (createSession ?i2 t2 (snd (createSession ?i1 t1 ?st)))) u
             = Some (fst (createSession ?i2 t2 (snd (createSession ?i1 t1 ?st))))"
    by (simp add: getSession_def createSession_def Let_def update_conv')
  from one two tok got show ?thesis by (simp add: Let_def)
qed

text \<open>
  C6. For a record present in the store, \<open>updateAgent(id, {description: d})\<close> returns a
  record whose \<open>description\<close> is \<open>d\<close> and whose \<open>name\<close>, \<open>firstMessage\<close>, \<open>createdBy\<close> and
  \<open>externalId\<close> (and every other property) are those of the stored record; the record
  stored under the id afterwards is the one returned, and no other record changes.
\<close>

theorem update_description_only:
  assumes "getAgent st i = Some a"
  shows "(case fst (updateAgent i [(''description'', d)] st) of
            None \<Rightarrow> False
          | Some a' \<Rightarrow>
              oget a' ''description'' = d
              \<and> oget a' ''name'' = oget a ''name''
              \<and> oget a' ''firstMessage'' = oget a ''firstMessage''
              \<and> oget a' ''createdBy'' = oget a ''createdBy''
              \<and> oget a' ''externalId'' = oget a ''externalId''
              \<and> (\<forall>k. k \<noteq> ''description'' \<longrightarrow> oget a' k = oget a k)
              \<and> getAgent (snd (updateAgent i [(''description'', d)] st)) i = Some a'
              \<and> (\<forall>j. j \<noteq> i \<longrightarrow> getAgent (snd (updateAgent i [(''description'', d)] st)) j = getAgent st j))"
  using assms
  by (simp add: updateAgent_def getAgent_def spread_def Let_def oget_update update_conv')

theorem update_description_only_witness:
  "getAgent (new_MemStorage tick) 2 \<noteq> None
   \<and> (case fst (updateAgent 2 [(''description'', JStr ''new'')] (new_MemStorage tick)) of
         None \<Rightarrow> False
       | Some a' \<Rightarrow>
           oget a' ''description'' = JStr ''new''
           \<and> oget a' ''prompt'' = JStr ''Sales Assistant''
           \<and> oget a' ''name'' = JUndefined
           \<and> oget a' ''externalId'' = JNull
           \<and> getAgent (snd (updateAgent 2 [(''description'', JStr ''new'')] (new_MemStorage tick))) 2 = Some a')"
proof -
  obtain a where a: "getAgent (new_MemStorage tick) 2 = Some a"
    and p: "oget a ''prompt'' = JStr ''Sales Assistant''"
    and n: "oget a ''name'' = JUndefined"
    and x: "oget a ''externalId'' = JNull"
    by (simp add: getAgent_def seed_defs upt_rec oget_def)
  show ?thesis
    using update_description_only[OF a, of "JStr ''new''"] a p n x
    by (auto split: option.splits)
qed

section \<open>The claims about the handlers\<close>

lemmas reply_defs = finish_def reply_def message_def

lemma has_token: "\<not> no_token (Some ''tok'')"
  by (simp add: no_token_def)

text \<open>
  C4. For an agent id that is not in the store (\<open>NaN\<close> from \<open>parseInt\<close> included),
  \<open>updateAgent\<close> returns absent and leaves the store as it was, and the update handler
  (\<open>PATCH\<close> in server/routes.ts, \<open>PUT\<close> in unnamed/part_003) makes no upstream call and
  leaves the store as it was. Its answer is 404 "Agent not found" on every request that
  comes as far as the store, that is, unless the token check has answered 401 or the
  validation of the body 400 before.
\<close>

theorem update_absent_agent:
  assumes "lookupAgent st agentId = None"
  shows "updateAgentAt agentId updateData st = (None, st)
    \<and> store (routes_patchAgent upstream token agentId reqBody st) = st
    \<and> calls (routes_patchAgent upstream token agentId reqBody st) = []
    \<and> resp (routes_patchAgent upstream token agentId reqBody st)
        = (if no_token token then reply 401 (JObj [(''message'', JStr ''Not authenticated'')])
           else if insertAgentSchema_partial_parse reqBody = None
             then \<lparr>status = 400, body = ValidationError, cookies = []\<rparr>
           else reply 404 (JObj [(''message'', JStr ''Agent not found'')]))
    \<and> store (demo_putAgent token agentId reqBody st) = st
    \<and> calls (demo_putAgent token agentId reqBody st) = []
    \<and> resp (demo_putAgent token agentId reqBody st)
        = (if no_token token then reply 401 (JObj [(''message'', JStr ''Not authenticated'')])
           else if insertAgentSchema_partial_parse reqBody = None
             then \<lparr>status = 400, body = ValidationError, cookies = []\<rparr>
           else reply 404 (JObj [(''message'', JStr ''Agent not found'')]))"
proof -
  have absent: "updateAgentAt agentId u st = (None, st)" for u
    using assms
    by (simp add: updateAgentAt_def lookupAgent_def updateAgent_def getAgent_def split: option.splits)
  have patch: "routes_patchAgent upstream token agentId reqBody st
      = (if no_token token then finish notAuthenticated st []
         else if insertAgentSchema_partial_parse reqBody = None
           then finish \<lparr>status = 400, body = ValidationError, cookies = []\<rparr> st []
         else finish agentNotFound st [])"
    using assms by (auto simp: routes_patchAgent_def)
  have put: "demo_putAgent token agentId reqBody st
      = (if no_token token then finish notAuthenticated st []
         else if insertAgentSchema_partial_parse reqBody = None
           then finish \<lparr>status = 400, body = ValidationError, cookies = []\<rparr> st []
         else finish agentNotFound st [])"
    using absent by (auto simp: demo_putAgent_def)
  show ?thesis
    by (simp add: absent patch put agentNotFound_def notAuthenticated_def reply_defs)
qed

theorem update_absent_agent_witness:
  "lookupAgent (new_MemStorage tick) (Some 5) = None
   \<and> updateAgent 5 [(''description'', JStr ''new'')] (new_MemStorage tick) = (None, new_MemStorage tick)
   \<and> status (resp (routes_patchAgent upstream_quota (Some ''tok'') (Some 5)
        (JObj [(''description'', JStr ''new'')]) (new_MemStorage tick))) = 404
   \<and> store (routes_patchAgent upstream_quota (Some ''tok'') (Some 5)
        (JObj [(''description'', JStr ''new'')]) (new_MemStorage tick)) = new_MemStorage tick
   \<and> status (resp (demo_putAgent (Some ''tok'') (Some 5)
        (JObj [(''description'', JStr ''new'')]) (new_MemStorage tick))) = 404
   \<and> status (resp (routes_patchAgent upstream_quota None (Some 5)
        (JObj [(''description'', JStr ''new'')]) (new_MemStorage tick))) = 401"
proof -
  have h1: "lookupAgent (new_MemStorage tick) (Some 5) = None"
    by (simp add: lookupAgent_def getAgent_def seed_defs upt_rec)
  have h3: "insertAgentSchema_partial_parse (JObj [(''description'', JStr ''new'')]) \<noteq> None"
    by (simp add: insertAgentSchema_partial_parse_def insertAgentFields_def oget_def)
  have some: "status (resp (routes_patchAgent upstream_quota (Some ''tok'') (Some 5)
        (JObj [(''description'', JStr ''new'')]) (new_MemStorage tick))) = 404
   \<and> store (routes_patchAgent upstream_quota (Some ''tok'') (Some 5)
        (JObj [(''description'', JStr ''new'')]) (new_MemStorage tick)) = new_MemStorage tick
   \<and> status (resp (demo_putAgent (Some ''tok'') (Some 5)
        (JObj [(''description'', JStr ''new'')]) (new_MemStorage tick))) = 404
   \<and> updateAgent 5 [(''description'', JStr ''new'')] (new_MemStorage tick) = (None, new_MemStorage tick)"
    using update_absent_agent[OF h1, of "[(''description'', JStr ''new'')]" upstream_quota
        "Some ''tok''" "JObj [(''description'', JStr ''new'')]"] h3 has_token
    by (simp add: updateAgentAt_def reply_def)
  have none: "status (resp (routes_patchAgent upstream_quota None (Some 5)
        (JObj [(''description'', JStr ''new'')]) (new_MemStorage tick))) = 401"
    using update_absent_agent[OF h1, of "[(''description'', JStr ''new'')]" upstream_quota
        None "JObj [(''description'', JStr ''new'')]"]
    by (simp add: no_token_def reply_def)
  from h1 some none show ?thesis by simp
qed

text \<open>
  C3. When the upstream create call answers 2xx with a parsed body whose \<open>success\<close> is
  \<open>false\<close> and whose \<open>error\<close> is \<open>"quota exceeded"\<close>, \<open>POST /api/agents\<close> answers 400 with
  the message \<open>"quota exceeded"\<close> and the store is left as it was: no agent record is made.
\<close>

theorem create_rejected_upstream:
  assumes "\<not> no_token token"
    and "insertAgentSchema_parse reqBody = Some agentData"
    and "upstream (addRequest token agentData) = Response code text (Some apiResult)"
    and "ok code"
    and "getProp apiResult ''success'' = JBool False"
    and "getProp apiResult ''error'' = JStr ''quota exceeded''"
  shows "status (resp (routes_postAgent now upstream token reqBody st)) = 400
    \<and> body (resp (routes_postAgent now upstream token reqBody st)) = Json (JObj [(''message'', JStr ''quota exceeded'')])
    \<and> store (routes_postAgent now upstream token reqBody st) = st
    \<and> getAgents (store (routes_postAgent now upstream token reqBody st)) = getAgents st
    \<and> calls (routes_postAgent now upstream token reqBody st) = [addRequest token agentData]"
proof -
  have "\<not> nullish apiResult"
    using assms(5) by (cases apiResult) simp_all
  then have "routes_postAgent now upstream token reqBody st
             = finish (reply 400 (message (JStr ''quota exceeded''))) st [addRequest token agentData]"
    using assms by (simp add: routes_postAgent_def js_or_def)
  then show ?thesis
    by (simp add: reply_defs)
qed

theorem create_rejected_upstream_witness:
  "\<not> no_token (Some ''tok'')
   \<and> insertAgentSchema_parse agentBody \<noteq> None
   \<and> status (resp (routes_postAgent (tick 3) upstream_quota (Some ''tok'') agentBody (new_MemStorage tick))) = 400
   \<and> body (resp (routes_postAgent (tick 3) upstream_quota (Some ''tok'') agentBody (new_MemStorage tick)))
       = Json (JObj [(''message'', JStr ''quota exceeded'')])
   \<and> getAgents (store (routes_postAgent (tick 3) upstream_quota (Some ''tok'') agentBody (new_MemStorage tick)))
       = getAgents (new_MemStorage tick)"
proof -
  have h1: "\<not> no_token (Some ''tok'')"
    by (simp add: no_token_def)
  obtain agentData where h2: "insertAgentSchema_parse agentBody = Some agentData"
    by (simp add: insertAgentSchema_parse_def agentBody_def insertAgentFields_def oget_def)
  have h3: "upstream_quota (addRequest (Some ''tok'') agentData)
            = Response 200 ''OK'' (Some (JObj [(''success'', JBool False), (''error'', JStr ''quota exceeded'')]))"
    by (simp add: upstream_quota_def)
  have h4: "ok 200" by (simp add: ok_def)
  have h5: "getProp (JObj [(''success'', JBool False), (''error'', JStr ''quota exceeded'')]) ''success'' = JBool False"
    by (simp add: oget_def)
  have h6: "getProp (JObj [(''success'', JBool False), (''error'', JStr ''quota exceeded'')]) ''error'' = JStr ''quota exceeded''"
    by (simp add: oget_def)
  show ?thesis
    using create_rejected_upstream[where upstream = upstream_quota and now = "tick 3"
          and st = "new_MemStorage tick", OF h1 h2 h3 h4 h5 h6] h1 h2
    by simp
qed

text \<open>
  C9. \<open>GET /api/auth/me\<close> with any non-empty \<open>auth_token\<close> cookie answers 200 with
  \<open>{authenticated: true}\<close>. The answer is the same in any two states of the store, no
  upstream call is made and the store is left as it was: a token that was never issued,
  or whose session has expired, is accepted.
\<close>

theorem me_accepts_any_token:
  assumes "t \<noteq> []"
  shows "status (resp (routes_me (Some t) st)) = 200
    \<and> body (resp (routes_me (Some t) st)) = Json (JObj [(''authenticated'', JBool True)])
    \<and> resp (routes_me (Some t) st) = resp (routes_me (Some t) st')
    \<and> calls (routes_me (Some t) st) = []
    \<and> store (routes_me (Some t) st) = st"
  using assms by (simp add: routes_me_def no_token_def reply_defs)

theorem me_accepts_any_token_witness:
  "sessions (new_MemStorage tick) = []
   \<and> status (resp (routes_me (Some ''never issued'') (new_MemStorage tick))) = 200
   \<and> body (resp (routes_me (Some ''never issued'') (new_MemStorage tick)))
       = Json (JObj [(''authenticated'', JBool True)])
   \<and> calls (routes_me (Some ''never issued'') (new_MemStorage tick)) = []"
  using me_accepts_any_token[of "''never issued''" "new_MemStorage tick"]
  by (simp add: new_sessions)

subsection \<open>Logging in\<close>

lemma find_update:
  "find P (map snd al) = None \<Longrightarrow> P v \<Longrightarrow> find P (map snd (AList.update k v al)) = Some v"
  by (induction al) (auto split: if_splits)

lemma findOrCreateUser_found:
  assumes "findOrCreateUser name pw st = (u, st1)"
  shows "getUserByUsername st1 name = Some u \<and> sessions st1 = sessions st \<and> agents st1 = agents st"
proof (cases "getUserByUsername st name")
  case None
  then have "find (\<lambda>u. username u = name) (map snd (users st)) = None"
    by (simp add: getUserByUsername_def)
  from find_update[OF this, of "\<lparr>username = name, password = pw, id_user = currentUserId st\<rparr>" "currentUserId st"]
  show ?thesis
    using assms None
    by (auto simp: findOrCreateUser_def createUser_def Let_def getUserByUsername_def)
next
  case (Some u')
  then show ?thesis
    using assms by (auto simp: findOrCreateUser_def)
qed

lemma js_or_null_idem: "js_or (js_or r JNull) JNull = js_or r JNull"
  by (simp add: js_or_def)

lemma startSession_accepts:
  "succeeded (startSession e clock name pw token refresh cs st)
   \<and> sessionTokens (startSession e clock name pw token refresh cs st) name = Some (token, js_or refresh JNull)
   \<and> cookieValues (startSession e clock name pw token refresh cs st) = [(''auth_token'', token)]
   \<and> calls (startSession e clock name pw token refresh cs st) = cs"
proof -
  obtain u st1 where f: "findOrCreateUser name pw st = (u, st1)"
    by (cases "findOrCreateUser name pw st")
  from findOrCreateUser_found[OF f] have g: "getUserByUsername st1 name = Some u" by simp
  show ?thesis
    using g
    by (simp add: startSession_def f createSession_def Let_def finish_def succeeded_def
        sessionTokens_def cookieValues_def loginOk_def authCookie_def oget_def
        getUserByUsername_def getSession_def update_conv' js_or_null_idem)
qed

text \<open>
  The older login module at the end of server/routes.ts reads \<open>access_token\<close> only: a 2xx
  answer without a truthy \<open>access_token\<close> is turned down, whatever \<open>data\<close> holds.
\<close>

lemma old_login_flat_only:
  assumes "loginSchema_parse reqBody = Some (name, pw)"
    and "upstream (tokenRequest_old e name pw) = Response code reason (Some authData)"
    and "ok code" and "\<not> nullish authData" and "\<not> truthy (getProp authData ''access_token'')"
  shows "resp (old_login e clock upstream reqBody st)
         = reply 401 (message (JStr ''Authentication failed. Invalid response from server.''))"
  using assms by (simp add: old_login_def finish_def)

lemma parse_demoBody: "loginSchema_parse demoBody = Some (''testuser'', ''password123'')"
  by (simp add: loginSchema_parse_def demoBody_def oget_def)

lemma parse_aliceBody: "loginSchema_parse aliceBody = Some (''alice'', ''secret'')"
  by (simp add: loginSchema_parse_def aliceBody_def oget_def)

text \<open>
  C2, as the claim states it, fails on the handler of server/routes.ts: with a token and
  an upstream that answers 503 the handler answers 503, and with an upstream that cannot
  be reached it answers 500.
\<close>

theorem list_fallback_counterexample:
  "\<not> no_token (Some ''tok'')
   \<and> upstream_unavailable (listRequest (Some ''tok'')) = Response 503 ''Service Unavailable'' None
   \<and> status (resp (routes_getAgents upstream_unavailable (Some ''tok'') (new_MemStorage tick))) = 503
   \<and> body (resp (routes_getAgents upstream_unavailable (Some ''tok'') (new_MemStorage tick)))
       = Json (JObj [(''message'', JStr ''Failed to fetch agents from API'')])
   \<and> status (resp (routes_getAgents upstream_offline (Some ''tok'') (new_MemStorage tick))) = 500"
  by (simp add: routes_getAgents_def has_token upstream_unavailable_def upstream_offline_def
      ok_def reply_defs)

text \<open>
  C2, amended. With a non-empty token and a failing upstream list call (a status that is
  not 2xx, or no answer at all), the handler of the draft with the fallback
  (unnamed/part_003) answers 200 with the agent list of the store; the handler of
  server/routes.ts answers with the upstream's status and the message "Failed to fetch
  agents from API", or with 500 and the message "Error connecting to agent API" when the
  call got no answer, never with 200. Neither changes the store.
\<close>

theorem list_fallback:
  assumes "\<not> no_token token"
    and "upstream (listRequest token) = NetworkError
         \<or> (\<exists>code text parsed. upstream (listRequest token) = Response code text parsed \<and> \<not> ok code)"
  shows "status (resp (demo_getAgents upstream token st)) = 200
    \<and> body (resp (demo_getAgents upstream token st)) = Json (JArr (map JObj (getAgents st)))
    \<and> store (demo_getAgents upstream token st) = st
    \<and> status (resp (routes_getAgents upstream token st))
        = (case upstream (listRequest token) of NetworkError \<Rightarrow> 500 | Response code text parsed \<Rightarrow> code)
    \<and> body (resp (routes_getAgents upstream token st))
        = (case upstream (listRequest token) of
             NetworkError \<Rightarrow> Json (JObj [(''message'', JStr ''Error connecting to agent API'')])
           | Response code text parsed \<Rightarrow> Json (JObj [(''message'', JStr ''Failed to fetch agents from API'')]))
    \<and> status (resp (routes_getAgents upstream token st)) \<noteq> 200
    \<and> store (routes_getAgents upstream token st) = st"
proof -
  from assms(2) show ?thesis
  proof
    assume "upstream (listRequest token) = NetworkError"
    with assms(1) show ?thesis
      by (simp add: demo_getAgents_def routes_getAgents_def localAgents_def reply_defs)
  next
    assume "\<exists>code text parsed. upstream (listRequest token) = Response code text parsed \<and> \<not> ok code"
    then obtain code reason parsed
      where r: "upstream (listRequest token) = Response code reason parsed" and n: "\<not> ok code"
      by blast
    from n have "code \<noteq> 200" by (auto simp: ok_def)
    with assms(1) r n show ?thesis
      by (simp add: demo_getAgents_def routes_getAgents_def localAgents_def reply_defs)
  qed
qed

theorem list_fallback_witness:
  "\<not> no_token (Some ''tok'')
   \<and> status (resp (demo_getAgents upstream_unavailable (Some ''tok'') (new_MemStorage tick))) = 200
   \<and> body (resp (demo_getAgents upstream_unavailable (Some ''tok'') (new_MemStorage tick)))
       = Json (JArr (map JObj (getAgents (new_MemStorage tick))))
   \<and> status (resp (routes_getAgents upstream_unavailable (Some ''tok'') (new_MemStorage tick))) = 503
   \<and> body (resp (routes_getAgents upstream_unavailable (Some ''tok'') (new_MemStorage tick)))
       = Json (JObj [(''message'', JStr ''Failed to fetch agents from API'')])
   \<and> status (resp (demo_getAgents upstream_offline (Some ''tok'') (new_MemStorage tick))) = 200
   \<and> status (resp (routes_getAgents upstream_offline (Some ''tok'') (new_MemStorage tick))) = 500
   \<and> body (resp (routes_getAgents upstream_offline (Some ''tok'') (new_MemStorage tick)))
       = Json (JObj [(''message'', JStr ''Error connecting to agent API'')])"
proof -
  have u: "upstream_unavailable (listRequest (Some ''tok'')) = NetworkError
         \<or> (\<exists>code text parsed. upstream_unavailable (listRequest (Some ''tok'')) = Response code text parsed \<and> \<not> ok code)"
    by (simp add: upstream_unavailable_def ok_def)
  have v: "upstream_offline (listRequest (Some ''tok'')) = NetworkError
         \<or> (\<exists>code text parsed. upstream_offline (listRequest (Some ''tok'')) = Response code text parsed \<and> \<not> ok code)"
    by (simp add: upstream_offline_def)
  have unavailable:
    "status (resp (demo_getAgents upstream_unavailable (Some ''tok'') (new_MemStorage tick))) = 200
     \<and> body (resp (demo_getAgents upstream_unavailable (Some ''tok'') (new_MemStorage tick)))
         = Json (JArr (map JObj (getAgents (new_MemStorage tick))))
     \<and> status (resp (routes_getAgents upstream_unavailable (Some ''tok'') (new_MemStorage tick))) = 503
     \<and> body (resp (routes_getAgents upstream_unavailable (Some ''tok'') (new_MemStorage tick)))
         = Json (JObj [(''message'', JStr ''Failed to fetch agents from API'')])"
    using list_fallback[where upstream = upstream_unavailable and st = "new_MemStorage tick",
        OF has_token u]
    by (simp add: upstream_unavailable_def)
  have offline:
    "status (resp (demo_getAgents upstream_offline (Some ''tok'') (new_MemStorage tick))) = 200
     \<and> status (resp (routes_getAgents upstream_offline (Some ''tok'') (new_MemStorage tick))) = 500
     \<and> body (resp (routes_getAgents upstream_offline (Some ''tok'') (new_MemStorage tick)))
         = Json (JObj [(''message'', JStr ''Error connecting to agent API'')])"
    using list_fallback[where upstream = upstream_offline and st = "new_MemStorage tick",
        OF has_token v]
    by (simp add: upstream_offline_def)
  from unavailable offline has_token show ?thesis by simp
qed

text \<open>
  C8, as the claim states it, fails on the login handler of the draft with the demo branch
  (unnamed/part_003): a 2xx answer that carries the token at \<open>data.accessToken\<close> only is
  turned down with 401.
\<close>

theorem token_locations_counterexample:
  "loginSchema_parse aliceBody = Some (''alice'', ''secret'')
   \<and> upstream_nested (tokenRequest env0 ''alice'' ''secret'')
       = Response 200 ''OK''
           (Some (JObj [(''data'', JObj [(''accessToken'', JStr ''abc''), (''refreshToken'', JStr ''def'')])]))
   \<and> getPropOpt (getProp (JObj [(''data'', JObj [(''accessToken'', JStr ''abc''), (''refreshToken'', JStr ''def'')])]) ''data'')
         ''accessToken'' = JStr ''abc''
   \<and> status (resp (demo_login env0 tick upstream_nested aliceBody (new_MemStorage tick))) = 401
   \<and> body (resp (demo_login env0 tick upstream_nested aliceBody (new_MemStorage tick)))
       = Json (JObj [(''message'', JStr ''Authentication failed. Invalid response from server.'')])
   \<and> cookies (resp (demo_login env0 tick upstream_nested aliceBody (new_MemStorage tick))) = []"
  by (simp add: demo_login_def parse_aliceBody upstream_nested_def ok_def getPropOpt_def
      oget_def reply_defs)

text \<open>
  C8, amended. On a 2xx answer whose body parses, the login handler of server/routes.ts
  takes the access token from \<open>data.accessToken\<close> if that is truthy and else from
  \<open>access_token\<close> (the refresh token likewise from \<open>data.refreshToken\<close>, else
  \<open>refresh_token\<close>, else \<open>null\<close>): it answers 200, stores the session and sets the cookie
  with that token; only when neither place holds a truthy token does it answer 401 "No
  access token received." (a body that parses to \<open>null\<close> ends in 500). The handler of the
  draft with the demo branch reads \<open>access_token\<close> only and answers 401 "Invalid response
  from server." when that is missing.
\<close>

theorem token_locations:
  assumes "loginSchema_parse reqBody = Some (name, pw)"
    and "upstream (tokenRequest e name pw) = Response code reason (Some authData)"
    and "ok code"
  shows "(let nested = getPropOpt (getProp authData ''data'') ''accessToken'';
              flat = getProp authData ''access_token'';
              refresh = js_or (js_or (getPropOpt (getProp authData ''data'') ''refreshToken'')
                                     (getProp authData ''refresh_token'')) JNull;
              out = routes_login e clock upstream reqBody st
          in if nullish authData then status (resp out) = 500 \<and> store out = st
             else if truthy nested then
               succeeded out \<and> sessionTokens out name = Some (nested, refresh)
               \<and> cookieValues out = [(''auth_token'', nested)]
             else if truthy flat then
               succeeded out \<and> sessionTokens out name = Some (flat, refresh)
               \<and> cookieValues out = [(''auth_token'', flat)]
             else
               status (resp out) = 401
               \<and> body (resp out) = Json (JObj [(''message'', JStr ''Authentication failed. No access token received.'')])
               \<and> cookieValues out = [] \<and> store out = st)
    \<and> (let flat = getProp authData ''access_token'';
            out = demo_login e clock upstream reqBody st
        in if (name, pw) = (''testuser'', ''password123'') then calls out = []
           else if nullish authData then status (resp out) = 500 \<and> store out = st
           else if truthy flat then
             succeeded out
             \<and> sessionTokens out name = Some (flat, js_or (getProp authData ''refresh_token'') JNull)
             \<and> cookieValues out = [(''auth_token'', flat)]
           else
             status (resp out) = 401
             \<and> body (resp out) = Json (JObj [(''message'', JStr ''Authentication failed. Invalid response from server.'')])
             \<and> cookieValues out = [] \<and> store out = st)"
proof -
  let ?nested = "getPropOpt (getProp authData ''data'') ''accessToken''"
  let ?flat = "getProp authData ''access_token''"
  let ?r = "js_or (getPropOpt (getProp authData ''data'') ''refreshToken'') (getProp authData ''refresh_token'')"
  let ?call = "tokenRequest e name pw"
  have routes_null: "nullish authData \<Longrightarrow>
      routes_login e clock upstream reqBody st = finish loginError st [?call]"
    using assms by (simp add: routes_login_def)
  have routes_none: "\<not> nullish authData \<Longrightarrow> \<not> truthy ?nested \<Longrightarrow> \<not> truthy ?flat \<Longrightarrow>
      routes_login e clock upstream reqBody st
      = finish (reply 401 (message (JStr ''Authentication failed. No access token received.''))) st [?call]"
    using assms by (simp add: routes_login_def js_or_def)
  have routes_some: "\<not> nullish authData \<Longrightarrow> truthy ?nested \<or> truthy ?flat \<Longrightarrow>
      routes_login e clock upstream reqBody st
      = startSession e clock name pw (js_or ?nested ?flat) ?r [?call] st"
    using assms by (auto simp: routes_login_def js_or_def Let_def)
  have first: "if nullish authData then
        status (resp (routes_login e clock upstream reqBody st)) = 500
        \<and> store (routes_login e clock upstream reqBody st) = st
      else if truthy ?nested then
        succeeded (routes_login e clock upstream reqBody st)
        \<and> sessionTokens (routes_login e clock upstream reqBody st) name = Some (?nested, js_or ?r JNull)
        \<and> cookieValues (routes_login e clock upstream reqBody st) = [(''auth_token'', ?nested)]
      else if truthy ?flat then
        succeeded (routes_login e clock upstream reqBody st)
        \<and> sessionTokens (routes_login e clock upstream reqBody st) name = Some (?flat, js_or ?r JNull)
        \<and> cookieValues (routes_login e clock upstream reqBody st) = [(''auth_token'', ?flat)]
      else
        status (resp (routes_login e clock upstream reqBody st)) = 401
        \<and> body (resp (routes_login e clock upstream reqBody st))
            = Json (JObj [(''message'', JStr ''Authentication failed. No access token received.'')])
        \<and> cookieValues (routes_login e clock upstream reqBody st) = []
        \<and> store (routes_login e clock upstream reqBody st) = st"
  proof (cases "nullish authData")
    case True
    then show ?thesis by (simp add: routes_null loginError_def reply_defs)
  next
    case nn: False
    show ?thesis
    proof (cases "truthy ?nested")
      case True
      with nn show ?thesis
        using startSession_accepts[of e clock name pw ?nested ?r "[?call]" st]
        by (simp add: routes_some js_or_def)
    next
      case nf: False
      show ?thesis
      proof (cases "truthy ?flat")
        case True
        with nn nf show ?thesis
          using startSession_accepts[of e clock name pw ?flat ?r "[?call]" st]
          by (simp add: routes_some js_or_def)
      next
        case False
        with nn nf show ?thesis
          by (simp add: routes_none reply_defs cookieValues_def)
      qed
    qed
  qed
  have second: "if (name, pw) = (''testuser'', ''password123'') then
        calls (demo_login e clock upstream reqBody st) = []
      else if nullish authData then
        status (resp (demo_login e clock upstream reqBody st)) = 500
        \<and> store (demo_login e clock upstream reqBody st) = st
      else if truthy ?flat then
        succeeded (demo_login e clock upstream reqBody st)
        \<and> sessionTokens (demo_login e clock upstream reqBody st) name
            = Some (?flat, js_or (getProp authData ''refresh_token'') JNull)
        \<and> cookieValues (demo_login e clock upstream reqBody st) = [(''auth_token'', ?flat)]
      else
        status (resp (demo_login e clock upstream reqBody st)) = 401
        \<and> body (resp (demo_login e clock upstream reqBody st))
            = Json (JObj [(''message'', JStr ''Authentication failed. Invalid response from server.'')])
        \<and> cookieValues (demo_login e clock upstream reqBody st) = []
        \<and> store (demo_login e clock upstream reqBody st) = st"
  proof (cases "name = ''testuser'' \<and> pw = ''password123''")
    case True
    then show ?thesis
      using assms(1)
      by (simp add: demo_login_def finish_def split: prod.splits)
  next
    case nd: False
    show ?thesis
    proof (cases "nullish authData")
      case True
      with nd show ?thesis
        using assms by (auto simp: demo_login_def loginError_def reply_defs)
    next
      case nn: False
      show ?thesis
      proof (cases "truthy ?flat")
        case True
        with nd nn assms have
          "demo_login e clock upstream reqBody st
           = startSession e clock name pw ?flat (getProp authData ''refresh_token'') [?call] st"
          by (auto simp: demo_login_def)
        with nd nn True show ?thesis
          using startSession_accepts[of e clock name pw ?flat "getProp authData ''refresh_token''" "[?call]" st]
          by auto
      next
        case False
        with nd nn show ?thesis
          using assms by (auto simp: demo_login_def reply_defs cookieValues_def)
      qed
    qed
  qed
  show ?thesis
    unfolding Let_def using first second by blast
qed

theorem token_locations_witness:
  "loginSchema_parse aliceBody = Some (''alice'', ''secret'')
   \<and> succeeded (routes_login env0 tick upstream_nested aliceBody (new_MemStorage tick))
   \<and> sessionTokens (routes_login env0 tick upstream_nested aliceBody (new_MemStorage tick)) ''alice''
       = Some (JStr ''abc'', JStr ''def'')
   \<and> cookieValues (routes_login env0 tick upstream_nested aliceBody (new_MemStorage tick))
       = [(''auth_token'', JStr ''abc'')]
   \<and> status (resp (demo_login env0 tick upstream_nested aliceBody (new_MemStorage tick))) = 401
   \<and> succeeded (routes_login env0 tick upstream_flat aliceBody (new_MemStorage tick))
   \<and> cookieValues (routes_login env0 tick upstream_flat aliceBody (new_MemStorage tick))
       = [(''auth_token'', JStr ''abc'')]
   \<and> succeeded (demo_login env0 tick upstream_flat aliceBody (new_MemStorage tick))
   \<and> cookieValues (demo_login env0 tick upstream_flat aliceBody (new_MemStorage tick))
       = [(''auth_token'', JStr ''abc'')]"
proof -
  have n: "upstream_nested (tokenRequest env0 ''alice'' ''secret'')
           = Response 200 ''OK''
               (Some (JObj [(''data'', JObj [(''accessToken'', JStr ''abc''), (''refreshToken'', JStr ''def'')])]))"
    by (simp add: upstream_nested_def)
  have f: "upstream_flat (tokenRequest env0 ''alice'' ''secret'')
           = Response 200 ''OK''
               (Some (JObj [(''access_token'', JStr ''abc''), (''refresh_token'', JStr ''def'')]))"
    by (simp add: upstream_flat_def)
  have k: "ok 200" by (simp add: ok_def)
  have nested: "succeeded (routes_login env0 tick upstream_nested aliceBody (new_MemStorage tick))
   \<and> sessionTokens (routes_login env0 tick upstream_nested aliceBody (new_MemStorage tick)) ''alice''
       = Some (JStr ''abc'', JStr ''def'')
   \<and> cookieValues (routes_login env0 tick upstream_nested aliceBody (new_MemStorage tick))
       = [(''auth_token'', JStr ''abc'')]
   \<and> status (resp (demo_login env0 tick upstream_nested aliceBody (new_MemStorage tick))) = 401"
    using token_locations[where upstream = upstream_nested and clock = tick
        and st = "new_MemStorage tick", OF parse_aliceBody n k]
    by (simp add: Let_def getPropOpt_def oget_def js_or_def)
  have flat: "succeeded (routes_login env0 tick upstream_flat aliceBody (new_MemStorage tick))
   \<and> cookieValues (routes_login env0 tick upstream_flat aliceBody (new_MemStorage tick))
       = [(''auth_token'', JStr ''abc'')]
   \<and> succeeded (demo_login env0 tick upstream_flat aliceBody (new_MemStorage tick))
   \<and> cookieValues (demo_login env0 tick upstream_flat aliceBody (new_MemStorage tick))
       = [(''auth_token'', JStr ''abc'')]"
    using token_locations[where upstream = upstream_flat and clock = tick
        and st = "new_MemStorage tick", OF parse_aliceBody f k]
    by (simp add: Let_def getPropOpt_def oget_def js_or_def)
  from nested flat show ?thesis
    by (simp add: parse_aliceBody)
qed

text \<open>
  C1, as the claim states it, fails on the login handler of server/routes.ts, which has no
  demo branch: the demo pair is sent upstream like any other, and an upstream that is out
  of service makes the login fail.
\<close>

theorem demo_login_counterexample:
  "loginSchema_parse demoBody = Some (''testuser'', ''password123'')
   \<and> calls (routes_login env0 tick upstream_unavailable demoBody (new_MemStorage tick))
       = [tokenRequest env0 ''testuser'' ''password123'']
   \<and> status (resp (routes_login env0 tick upstream_unavailable demoBody (new_MemStorage tick))) = 401
   \<and> cookies (resp (routes_login env0 tick upstream_unavailable demoBody (new_MemStorage tick))) = []"
  by (simp add: routes_login_def parse_demoBody upstream_unavailable_def ok_def reply_defs)

text \<open>
  C1, amended. In the draft with the demo branch (unnamed/part_003), a login with the demo
  pair answers 200 with \<open>success: true\<close> and makes no upstream call; the session stored for
  the account holds the token \<open>"demo_token_"\<close> followed by the epoch milliseconds read for
  it, and the \<open>auth_token\<close> cookie carries \<open>"demo_token_"\<close> followed by the epoch
  milliseconds read when the cookie is set. The handler of server/routes.ts sends the demo
  pair to the upstream token endpoint.
\<close>

theorem demo_login_mints_token:
  assumes "loginSchema_parse reqBody = Some (''testuser'', ''password123'')"
  shows "(let out = demo_login e clock upstream reqBody st
          in succeeded out
             \<and> calls out = []
             \<and> sessionTokens out ''testuser''
                 = Some (JStr (''demo_token_'' @ string_of_nat (clock 1)), JNull)
             \<and> cookieValues out = [(''auth_token'', JStr (''demo_token_'' @ string_of_nat (clock 3)))])
    \<and> calls (routes_login e clock upstream reqBody st) = [tokenRequest e ''testuser'' ''password123'']"
proof -
  obtain u st1 where f: "findOrCreateUser ''testuser'' ''password123'' st = (u, st1)"
    by (cases "findOrCreateUser ''testuser'' ''password123'' st")
  from findOrCreateUser_found[OF f] have g: "getUserByUsername st1 ''testuser'' = Some u" by simp
  have demo: "succeeded (demo_login e clock upstream reqBody st)
      \<and> calls (demo_login e clock upstream reqBody st) = []
      \<and> sessionTokens (demo_login e clock upstream reqBody st) ''testuser''
          = Some (JStr (''demo_token_'' @ string_of_nat (clock 1)), JNull)
      \<and> cookieValues (demo_login e clock upstream reqBody st)
          = [(''auth_token'', JStr (''demo_token_'' @ string_of_nat (clock 3)))]"
    using assms g
    by (simp add: demo_login_def f createSession_def Let_def finish_def succeeded_def
        sessionTokens_def cookieValues_def loginOk_def authCookie_def oget_def
        getUserByUsername_def getSession_def update_conv' js_or_def)
  have routes: "calls (routes_login e clock upstream reqBody st) = [tokenRequest e ''testuser'' ''password123'']"
    using assms
    by (simp add: routes_login_def finish_def startSession_def createSession_def Let_def
        split: fetch_result.splits option.splits prod.splits)
  show ?thesis
    unfolding Let_def using demo routes by blast
qed

theorem demo_login_mints_token_witness:
  "loginSchema_parse demoBody = Some (''testuser'', ''password123'')
   \<and> succeeded (demo_login env0 tick upstream_offline demoBody (new_MemStorage tick))
   \<and> calls (demo_login env0 tick upstream_offline demoBody (new_MemStorage tick)) = []
   \<and> sessionTokens (demo_login env0 tick upstream_offline demoBody (new_MemStorage tick)) ''testuser''
       = Some (JStr ''demo_token_1750000000001'', JNull)
   \<and> cookieValues (demo_login env0 tick upstream_offline demoBody (new_MemStorage tick))
       = [(''auth_token'', JStr ''demo_token_1750000000003'')]"
proof -
  have t1: "string_of_nat (tick (Suc 0)) = ''1750000000001''"
    by (simp add: tick_def string_of_nat.simps digit_def)
  have t3: "string_of_nat (tick 3) = ''1750000000003''"
    by (simp add: tick_def string_of_nat.simps digit_def)
  show ?thesis
    using demo_login_mints_token[where upstream = upstream_offline and clock = tick and e = env0
        and st = "new_MemStorage tick", OF parse_demoBody]
    by (simp add: parse_demoBody Let_def t1 t3)
qed

end
